theory Spec2Isabelle
  imports Complex_Main
begin

section \<open>JavaScript values as the controller sees them\<close>

text \<open>
  The lifecycle controller (\<^verbatim>\<open>src/cli/controller.js\<close>) is duck-typed JavaScript: every
  option, setting and payload is an arbitrary value, and the code relies on truthiness
  (\<^verbatim>\<open>a || b\<close>, \<^verbatim>\<open>!i\<close>), on numeric coercion (\<^verbatim>\<open>opts.timeout / 500\<close>, \<^verbatim>\<open>i--\<close>),
  on \<^verbatim>\<open>typeof\<close>, \<^verbatim>\<open>toString()\<close>, \<^verbatim>\<open>parseInt\<close> and \<^verbatim>\<open>JSON.parse\<close>. This section
  fixes the value universe and those language primitives.

  Numbers are \<^verbatim>\<open>NaN\<close>, the two infinities, or a finite number. Finite numbers are
  rationals: arithmetic on them is exact where IEEE doubles round, which is the behaviour
  of the controller's counters for the magnitudes a timeout in milliseconds takes (a
  decrement by one is exact on doubles below \<open>2^53\<close>). Negative zero is identified with
  zero; the code never divides by a counter.

  Strings are lists of 8-bit characters, read as UTF-16 code units below 256.

  Objects are plain data: an association list of own properties in insertion order, with
  the conversions of \<^verbatim>\<open>Object.prototype\<close> and \<^verbatim>\<open>Array.prototype\<close>. An own property named
  \<^verbatim>\<open>toString\<close> or \<^verbatim>\<open>valueOf\<close>, which would replace them, and the reordering of
  integer-like keys are not modelled.
\<close>

datatype jsnum = NaN | PInf | NInf | Fin rat

datatype jsval =
    JUndefined
  | JNull
  | JBool bool
  | JNum jsnum
  | JStr string
  | JArr "jsval list"
  | JObj "(string \<times> jsval) list"

text \<open>Truthiness (\<^verbatim>\<open>ToBoolean\<close>): the operand test of \<^verbatim>\<open>||\<close>, \<^verbatim>\<open>&&\<close>, \<^verbatim>\<open>!\<close> and \<^verbatim>\<open>if\<close>.\<close>

fun truthy :: "jsval \<Rightarrow> bool" where
  "truthy JUndefined = False"
| "truthy JNull = False"
| "truthy (JBool b) = b"
| "truthy (JNum NaN) = False"
| "truthy (JNum PInf) = True"
| "truthy (JNum NInf) = True"
| "truthy (JNum (Fin q)) = (q \<noteq> 0)"
| "truthy (JStr s) = (s \<noteq> [])"
| "truthy (JArr xs) = True"
| "truthy (JObj kvs) = True"

text \<open>\<^verbatim>\<open>a || b\<close>: the first operand when it is truthy, the second otherwise.\<close>

definition js_or :: "jsval \<Rightarrow> jsval \<Rightarrow> jsval" where
  "js_or a b = (if truthy a then a else b)"

fun js_typeof :: "jsval \<Rightarrow> string" where
  "js_typeof JUndefined = ''undefined''"
| "js_typeof JNull = ''object''"
| "js_typeof (JBool b) = ''boolean''"
| "js_typeof (JNum n) = ''number''"
| "js_typeof (JStr s) = ''string''"
| "js_typeof (JArr xs) = ''object''"
| "js_typeof (JObj kvs) = ''object''"

text \<open>Property read \<^verbatim>\<open>o[k]\<close> on an object: an absent property reads \<^verbatim>\<open>undefined\<close>.\<close>

type_synonym jsobj = "(string \<times> jsval) list"

definition getprop :: "jsobj \<Rightarrow> string \<Rightarrow> jsval" where
  "getprop obj k = (case map_of obj k of None \<Rightarrow> JUndefined | Some v \<Rightarrow> v)"

fun js_get :: "jsval \<Rightarrow> string \<Rightarrow> jsval" where
  "js_get (JObj kvs) k = getprop kvs k"
| "js_get v k = JUndefined"

text \<open>Property write \<^verbatim>\<open>o[k] = v\<close>: an existing key keeps its position.\<close>

fun put :: "string \<Rightarrow> jsval \<Rightarrow> jsobj \<Rightarrow> jsobj" where
  "put k v [] = [(k, v)]"
| "put k v ((k', v') # kvs) = (if k = k' then (k, v) # kvs else (k', v') # put k v kvs)"

subsection \<open>Arithmetic and comparison on numbers\<close>

fun js_sub :: "jsnum \<Rightarrow> jsnum \<Rightarrow> jsnum" where
  "js_sub NaN b = NaN"
| "js_sub a NaN = NaN"
| "js_sub PInf PInf = NaN"
| "js_sub NInf NInf = NaN"
| "js_sub PInf b = PInf"
| "js_sub NInf b = NInf"
| "js_sub (Fin a) PInf = NInf"
| "js_sub (Fin a) NInf = PInf"
| "js_sub (Fin a) (Fin b) = Fin (a - b)"

fun js_neg :: "jsnum \<Rightarrow> jsnum" where
  "js_neg NaN = NaN"
| "js_neg PInf = NInf"
| "js_neg NInf = PInf"
| "js_neg (Fin a) = Fin (- a)"

fun js_div :: "jsnum \<Rightarrow> jsnum \<Rightarrow> jsnum" where
  "js_div NaN b = NaN"
| "js_div a NaN = NaN"
| "js_div (Fin a) (Fin b) =
     (if b \<noteq> 0 then Fin (a / b) else if a = 0 then NaN else if 0 < a then PInf else NInf)"
| "js_div (Fin a) b = Fin 0"
| "js_div a (Fin b) = (if (a = PInf) = (0 \<le> b) then PInf else NInf)"
| "js_div a b = NaN"

text \<open>\<^verbatim>\<open>a <= b\<close> and \<^verbatim>\<open>a >= b\<close> on numbers: false whenever an operand is \<^verbatim>\<open>NaN\<close>.\<close>

fun js_le :: "jsnum \<Rightarrow> jsnum \<Rightarrow> bool" where
  "js_le NaN b = False"
| "js_le a NaN = False"
| "js_le NInf b = True"
| "js_le a PInf = True"
| "js_le PInf b = False"
| "js_le a NInf = False"
| "js_le (Fin a) (Fin b) = (a \<le> b)"

definition js_ge :: "jsnum \<Rightarrow> jsnum \<Rightarrow> bool" where
  "js_ge a b = js_le b a"

subsection \<open>Strings and numbers\<close>

definition is_digit :: "char \<Rightarrow> bool" where
  "is_digit c = (48 \<le> (of_char c :: nat) \<and> (of_char c :: nat) \<le> 57)"

text \<open>The value of a digit in a radix up to 16, if it is one.\<close>

definition digit_val :: "nat \<Rightarrow> char \<Rightarrow> nat option" where
  "digit_val radix c =
     (let n = (of_char c :: nat);
          v = (if 48 \<le> n \<and> n \<le> 57 then Some (n - 48)
               else if 97 \<le> n \<and> n \<le> 102 then Some (n - 87)
               else if 65 \<le> n \<and> n \<le> 70 then Some (n - 55)
               else None)
      in case v of None \<Rightarrow> None | Some d \<Rightarrow> if d < radix then Some d else None)"

definition digits_val :: "nat \<Rightarrow> string \<Rightarrow> nat" where
  "digits_val radix cs = foldl (\<lambda>acc c. acc * radix + (case digit_val radix c of None \<Rightarrow> 0 | Some d \<Rightarrow> d)) 0 cs"

definition is_radix_digit :: "nat \<Rightarrow> char \<Rightarrow> bool" where
  "is_radix_digit radix c = (digit_val radix c \<noteq> None)"

text \<open>
  \<^verbatim>\<open>StrWhiteSpaceChar\<close> among the code units below 256: tab, line feed, vertical tab,
  form feed, carriage return, space and no-break space.
\<close>

definition is_js_space :: "char \<Rightarrow> bool" where
  "is_js_space c = ((of_char c :: nat) \<in> {9, 10, 11, 12, 13, 32, 160})"

definition js_trim :: "string \<Rightarrow> string" where
  "js_trim s = rev (dropWhile is_js_space (rev (dropWhile is_js_space s)))"

text \<open>
  \<^verbatim>\<open>StrUnsignedDecimalLiteral\<close> without \<^verbatim>\<open>Infinity\<close>: digits, an optional fraction and
  an optional exponent, at least one digit before or after the point, nothing left over.
\<close>

definition parse_exponent :: "string \<Rightarrow> int option" where
  "parse_exponent r =
     (case r of
        [] \<Rightarrow> Some 0
      | c # r1 \<Rightarrow>
          if c = CHR ''e'' \<or> c = CHR ''E'' then
            (let (neg, ds) =
                   (case r1 of
                      [] \<Rightarrow> (False, [])
                    | s # r2 \<Rightarrow> if s = CHR ''-'' then (True, r2)
                                else if s = CHR ''+'' then (False, r2) else (False, r1))
             in if ds \<noteq> [] \<and> list_all is_digit ds
                then Some (if neg then - int (digits_val 10 ds) else int (digits_val 10 ds))
                else None)
          else None)"

definition scale10 :: "rat \<Rightarrow> int \<Rightarrow> rat" where
  "scale10 q e = (if 0 \<le> e then q * 10 ^ nat e else q / 10 ^ nat (- e))"

definition parse_decimal :: "string \<Rightarrow> rat option" where
  "parse_decimal cs =
     (let ds1 = takeWhile is_digit cs;
          r1 = dropWhile is_digit cs;
          (ds2, r2) = (case r1 of
                         [] \<Rightarrow> ([], r1)
                       | c # r \<Rightarrow> if c = CHR ''.'' then (takeWhile is_digit r, dropWhile is_digit r)
                                  else ([], r1))
      in if ds1 = [] \<and> ds2 = [] then None
         else case parse_exponent r2 of
                None \<Rightarrow> None
              | Some e \<Rightarrow>
                  Some (scale10 (of_nat (digits_val 10 ds1)
                                 + of_nat (digits_val 10 ds2) / 10 ^ length ds2) e))"

definition parse_radix :: "nat \<Rightarrow> string \<Rightarrow> jsnum" where
  "parse_radix radix ds =
     (if ds \<noteq> [] \<and> list_all (is_radix_digit radix) ds then Fin (of_nat (digits_val radix ds))
      else NaN)"

text \<open>\<^verbatim>\<open>ToNumber\<close> applied to a string (\<^verbatim>\<open>StringToNumber\<close>).\<close>

definition StringToNumber :: "string \<Rightarrow> jsnum" where
  "StringToNumber s =
     (let t = js_trim s in
      case t of
        [] \<Rightarrow> Fin 0
      | c # r \<Rightarrow>
          if c = CHR ''0'' \<and> r \<noteq> [] \<and> hd r \<in> {CHR ''x'', CHR ''X''} then parse_radix 16 (tl r)
          else if c = CHR ''0'' \<and> r \<noteq> [] \<and> hd r \<in> {CHR ''o'', CHR ''O''} then parse_radix 8 (tl r)
          else if c = CHR ''0'' \<and> r \<noteq> [] \<and> hd r \<in> {CHR ''b'', CHR ''B''} then parse_radix 2 (tl r)
          else
            (let (neg, body) = (if c = CHR ''-'' then (True, r)
                                else if c = CHR ''+'' then (False, r) else (False, t));
                 n = (if body = ''Infinity'' then PInf
                      else case parse_decimal body of None \<Rightarrow> NaN | Some q \<Rightarrow> Fin q)
             in if neg then js_neg n else n))"

text \<open>
  \<^verbatim>\<open>parseInt(s)\<close> without a radix: leading white space and a sign are skipped, a
  \<^verbatim>\<open>0x\<close> prefix selects radix 16, the longest prefix of digits is read, and no digit
  at all gives \<^verbatim>\<open>NaN\<close>.
\<close>

definition js_parseInt :: "string \<Rightarrow> jsnum" where
  "js_parseInt s =
     (let t = dropWhile is_js_space s;
          (neg, u) = (case t of
                        [] \<Rightarrow> (False, t)
                      | c # r \<Rightarrow> if c = CHR ''-'' then (True, r)
                                 else if c = CHR ''+'' then (False, r) else (False, t));
          (radix, body) = (case u of
                             a # b # r \<Rightarrow> if a = CHR ''0'' \<and> (b = CHR ''x'' \<or> b = CHR ''X'')
                                           then (16, r) else (10, u)
                           | _ \<Rightarrow> (10, u));
          ds = takeWhile (is_radix_digit radix) body
      in if ds = [] then NaN
         else if neg then Fin (- of_nat (digits_val radix ds)) else Fin (of_nat (digits_val radix ds)))"

text \<open>\<^verbatim>\<open>s.split('.')\<close>: the pieces between the dots, always at least one.\<close>

fun split_dot :: "string \<Rightarrow> string list" where
  "split_dot [] = [[]]"
| "split_dot (c # cs) =
     (if c = CHR ''.'' then [] # split_dot cs
      else (case split_dot cs of p # ps \<Rightarrow> (c # p) # ps | [] \<Rightarrow> [[c]]))"

text \<open>
  \<^verbatim>\<open>Number.prototype.toString\<close>. An integer of magnitude at most \<open>2^53\<close> prints as its
  decimal digits. How any other finite number prints is the shortest-round-trip formatting
  of doubles; it is a parameter \<open>fmt\<close> of the model.
\<close>

function dec_digits :: "int \<Rightarrow> string" where
  "dec_digits n =
     (if n < 10 then [char_of (48 + n)] else dec_digits (n div 10) @ [char_of (48 + n mod 10)])"
  by pat_completeness auto
termination
  by (relation "measure nat") auto

declare dec_digits.simps [simp del]

definition Number_toString :: "(rat \<Rightarrow> string) \<Rightarrow> jsnum \<Rightarrow> string" where
  "Number_toString fmt n =
     (case n of
        NaN \<Rightarrow> ''NaN''
      | PInf \<Rightarrow> ''Infinity''
      | NInf \<Rightarrow> ''-Infinity''
      | Fin q \<Rightarrow>
          if of_int \<lfloor>q\<rfloor> = q \<and> \<bar>q\<bar> \<le> 2 ^ 53
          then (if q < 0 then CHR ''-'' # dec_digits (- \<lfloor>q\<rfloor>) else dec_digits \<lfloor>q\<rfloor>)
          else fmt q)"

fun join_comma :: "string list \<Rightarrow> string" where
  "join_comma [] = []"
| "join_comma [s] = s"
| "join_comma (s # t # ss) = s @ CHR '','' # join_comma (t # ss)"

text \<open>
  \<^verbatim>\<open>ToString\<close>, which is also what \<^verbatim>\<open>v.toString()\<close> returns on the values that have the
  method: an array joins its elements with commas, \<^verbatim>\<open>null\<close> and \<^verbatim>\<open>undefined\<close> elements
  printing as nothing, and a plain object prints as \<^verbatim>\<open>[object Object]\<close>.
\<close>

fun js_ToString :: "(rat \<Rightarrow> string) \<Rightarrow> jsval \<Rightarrow> string"
  and js_element :: "(rat \<Rightarrow> string) \<Rightarrow> jsval \<Rightarrow> string" where
  "js_ToString fmt JUndefined = ''undefined''"
| "js_ToString fmt JNull = ''null''"
| "js_ToString fmt (JBool b) = (if b then ''true'' else ''false'')"
| "js_ToString fmt (JNum n) = Number_toString fmt n"
| "js_ToString fmt (JStr s) = s"
| "js_ToString fmt (JArr xs) = join_comma (map (js_element fmt) xs)"
| "js_ToString fmt (JObj kvs) = ''[object Object]''"
| "js_element fmt v = (if v = JUndefined \<or> v = JNull then [] else js_ToString fmt v)"

text \<open>
  \<^verbatim>\<open>ToNumber\<close>: arrays and plain objects convert through their string form.
\<close>

fun ToNumber :: "(rat \<Rightarrow> string) \<Rightarrow> jsval \<Rightarrow> jsnum" where
  "ToNumber fmt JUndefined = NaN"
| "ToNumber fmt JNull = Fin 0"
| "ToNumber fmt (JBool b) = (if b then Fin 1 else Fin 0)"
| "ToNumber fmt (JNum n) = n"
| "ToNumber fmt (JStr s) = StringToNumber s"
| "ToNumber fmt (JArr xs) = StringToNumber (js_ToString fmt (JArr xs))"
| "ToNumber fmt (JObj kvs) = StringToNumber (js_ToString fmt (JObj kvs))"

subsection \<open>Errors and the outcome of a call\<close>

text \<open>
  The two timeout errors are the ones the controller constructs itself; \<open>SyntaxError\<close>
  and \<open>TypeError\<close> are raised by the language; every error that comes from outside
  (a refused connection, a failed spawn, a failed HTTP request, a failed signal) is an
  \<open>ExternalError\<close>.

  A call either returns a promise that resolves, returns a promise that rejects, or throws
  synchronously. A promise that never settles is the value \<open>None\<close> of the functions
  below that return an \<open>option\<close>.
\<close>

datatype error =
    Timeout_waiting_for_emulator_start
  | Timeout_waiting_for_emulator_stop
  | SyntaxError
  | TypeError
  | ExternalError string

datatype 'a result = Resolved 'a | Rejected error | Thrown error

subsection \<open>\<^verbatim>\<open>JSON.parse\<close>\<close>

text \<open>
  A recursive-descent reader of the JSON grammar: objects, arrays, strings with their
  escapes, numbers, the three literals, white space between tokens, nothing after the value.
  A repeated key keeps its first position and its last value. The recursion is on a fuel
  argument that the entry point sets beyond the length of the text, so that it never runs
  out. Numbers are read exactly. An escape \<^verbatim>\<open>\uXXXX\<close> is decoded when the code unit
  is below 256, the range of the model's characters.
\<close>

definition is_json_space :: "char \<Rightarrow> bool" where
  "is_json_space c = ((of_char c :: nat) \<in> {9, 10, 13, 32})"

definition skip_ws :: "string \<Rightarrow> string" where
  "skip_ws cs = dropWhile is_json_space cs"

definition json_unescape :: "char \<Rightarrow> char option" where
  "json_unescape e =
     (if e = CHR 0x22 \<or> e = CHR 0x5C \<or> e = CHR ''/'' then Some e
      else if e = CHR ''b'' then Some (CHR 0x08)
      else if e = CHR ''f'' then Some (CHR 0x0C)
      else if e = CHR ''n'' then Some (CHR 0x0A)
      else if e = CHR ''r'' then Some (CHR 0x0D)
      else if e = CHR ''t'' then Some (CHR 0x09)
      else None)"

fun json_string :: "string \<Rightarrow> (string \<times> string) option" where
  "json_string [] = None"
| "json_string (c # cs) =
     (if c = CHR 0x22 then Some ([], cs)
      else if c = CHR 0x5C then
        (case cs of
           [] \<Rightarrow> None
         | e # r \<Rightarrow>
             if e = CHR ''u'' then
               (if 4 \<le> length r \<and> list_all (is_radix_digit 16) (take 4 r)
                   \<and> digits_val 16 (take 4 r) < 256
                then map_option (\<lambda>(s, t). (char_of (digits_val 16 (take 4 r)) # s, t))
                       (json_string (drop 4 r))
                else None)
             else (case json_unescape e of
                     None \<Rightarrow> None
                   | Some ch \<Rightarrow> map_option (\<lambda>(s, t). (ch # s, t)) (json_string r)))
      else if (of_char c :: nat) < 32 then None
      else map_option (\<lambda>(s, t). (c # s, t)) (json_string cs))"

definition json_number :: "string \<Rightarrow> (rat \<times> string) option" where
  "json_number cs =
     (let (neg, u) = (case cs of [] \<Rightarrow> (False, cs)
                      | c # r \<Rightarrow> if c = CHR ''-'' then (True, r) else (False, cs));
          ds1 = takeWhile is_digit u;
          r1 = dropWhile is_digit u
      in if ds1 = [] \<or> (hd ds1 = CHR ''0'' \<and> length ds1 \<noteq> 1) then None
         else
           (let (ok2, ds2, r2) =
                  (if r1 \<noteq> [] \<and> hd r1 = CHR ''.''
                   then (takeWhile is_digit (tl r1) \<noteq> [], takeWhile is_digit (tl r1),
                         dropWhile is_digit (tl r1))
                   else (True, [], r1));
                (ok3, e, r3) =
                  (if r2 \<noteq> [] \<and> (hd r2 = CHR ''e'' \<or> hd r2 = CHR ''E'')
                   then (let (eneg, r') =
                               (if tl r2 \<noteq> [] \<and> hd (tl r2) = CHR ''-'' then (True, tl (tl r2))
                                else if tl r2 \<noteq> [] \<and> hd (tl r2) = CHR ''+'' then (False, tl (tl r2))
                                else (False, tl r2));
                             ds3 = takeWhile is_digit r'
                         in (ds3 \<noteq> [],
                             if eneg then - int (digits_val 10 ds3) else int (digits_val 10 ds3),
                             dropWhile is_digit r'))
                   else (True, 0, r2));
                q = scale10 (of_nat (digits_val 10 ds1)
                             + of_nat (digits_val 10 ds2) / 10 ^ length ds2) e
            in if ok2 \<and> ok3 then Some (if neg then - q else q, r3) else None))"

fun json_value :: "nat \<Rightarrow> string \<Rightarrow> (jsval \<times> string) option"
  and json_elements :: "nat \<Rightarrow> jsval list \<Rightarrow> string \<Rightarrow> (jsval \<times> string) option"
  and json_members :: "nat \<Rightarrow> jsobj \<Rightarrow> string \<Rightarrow> (jsval \<times> string) option" where
  "json_value 0 cs = None"
| "json_value (Suc n) cs =
     (case skip_ws cs of
        [] \<Rightarrow> None
      | c # r \<Rightarrow>
          if c = CHR ''{'' then
            (if skip_ws r \<noteq> [] \<and> hd (skip_ws r) = CHR ''}'' then Some (JObj [], tl (skip_ws r))
             else json_members n [] r)
          else if c = CHR ''['' then
            (if skip_ws r \<noteq> [] \<and> hd (skip_ws r) = CHR '']'' then Some (JArr [], tl (skip_ws r))
             else json_elements n [] r)
          else if c = CHR 0x22 then map_option (\<lambda>(s, t). (JStr s, t)) (json_string r)
          else if c = CHR ''-'' \<or> is_digit c
            then map_option (\<lambda>(q, t). (JNum (Fin q), t)) (json_number (c # r))
          else if take 4 (c # r) = ''true'' then Some (JBool True, drop 4 (c # r))
          else if take 5 (c # r) = ''false'' then Some (JBool False, drop 5 (c # r))
          else if take 4 (c # r) = ''null'' then Some (JNull, drop 4 (c # r))
          else None)"
| "json_elements 0 acc cs = None"
| "json_elements (Suc n) acc cs =
     (case json_value n cs of
        None \<Rightarrow> None
      | Some (v, r) \<Rightarrow>
          (case skip_ws r of
             [] \<Rightarrow> None
           | c # r' \<Rightarrow>
               if c = CHR '','' then json_elements n (acc @ [v]) r'
               else if c = CHR '']'' then Some (JArr (acc @ [v]), r')
               else None))"
| "json_members 0 acc cs = None"
| "json_members (Suc n) acc cs =
     (case skip_ws cs of
        [] \<Rightarrow> None
      | q # r \<Rightarrow>
          if q \<noteq> CHR 0x22 then None
          else
            (case json_string r of
               None \<Rightarrow> None
             | Some (k, r1) \<Rightarrow>
                 if skip_ws r1 = [] \<or> hd (skip_ws r1) \<noteq> CHR '':'' then None
                 else
                   (case json_value n (tl (skip_ws r1)) of
                      None \<Rightarrow> None
                    | Some (v, r3) \<Rightarrow>
                        (case skip_ws r3 of
                           [] \<Rightarrow> None
                         | c # r4 \<Rightarrow>
                             if c = CHR '','' then json_members n (put k v acc) r4
                             else if c = CHR ''}'' then Some (JObj (put k v acc), r4)
                             else None))))"

definition JSON_parse :: "string \<Rightarrow> error + jsval" where
  "JSON_parse s =
     (case json_value (2 * length s + 2) s of
        None \<Rightarrow> Inl SyntaxError
      | Some (v, r) \<Rightarrow> if skip_ws r = [] then Inr v else Inl SyntaxError)"

section \<open>The world around the controller\<close>

text \<open>
  What the controller observes of its surroundings is a record of oracles, one for each
  external call it makes: the configuration store, the environment and version of the
  running Node process, the log directory helper, the file system, \<^verbatim>\<open>child_process.spawn\<close>,
  \<^verbatim>\<open>net.connect\<close>, the HTTP client \<^verbatim>\<open>got\<close> and \<^verbatim>\<open>process.kill\<close>. Each oracle answers
  with the value the call returns or the error it raises. The answer of \<^verbatim>\<open>net.connect\<close>
  depends on how many connections were attempted before, so that a server may come up or
  go down while the controller polls: \<open>None\<close> is a connection, \<open>Some e\<close> the error
  event. \<open>spawn\<close> answers with the \<^verbatim>\<open>pid\<close> of the child, or with the error it throws.
  \<open>number_format\<close> is the parameter of \<open>Number_toString\<close>.
\<close>

record env =
  config :: jsobj
  GCLOUD_PROJECT :: jsval
  process_version :: string
  number_format :: "rat \<Rightarrow> string"
  assertLogsPath :: "jsval \<Rightarrow> error + jsval"
  openSync :: "jsval \<Rightarrow> error + jsval"
  spawn :: "jsval list \<Rightarrow> jsval \<Rightarrow> error + jsval"
  net_connect :: "nat \<Rightarrow> jsval \<Rightarrow> jsval \<Rightarrow> error option"
  got :: "jsval \<Rightarrow> jsobj \<Rightarrow> error + jsval"
  process_kill :: "jsval \<Rightarrow> error option"

text \<open>
  What the controller does is recorded as a trace, in order: a connection attempt with its
  port, host and whether it connected; a \<^verbatim>\<open>setTimeout\<close> with its delay in milliseconds;
  an HTTP request with its URL and options; a signal sent to a pid; the writes to the
  status store; the opening of the log file; the spawn with its arguments and output
  descriptor; and the console messages.
\<close>

datatype event =
    NetConnect jsval jsval bool
  | SetTimeout nat
  | Got jsval jsobj
  | ProcessKill jsval
  | StatusSet jsobj
  | StatusClear
  | OpenSync jsval
  | Spawn "jsval list" jsval
  | ConsoleLog string
  | ConsoleError string

record world =
  store_status :: jsobj
  attempts :: nat
  trace :: "event list"

definition emit :: "event list \<Rightarrow> world \<Rightarrow> world" where
  "emit evs w = w\<lparr>trace := trace w @ evs\<rparr>"

text \<open>
  The module \<^verbatim>\<open>./store\<close>, with the persisted status store \<^verbatim>\<open>store.status\<close> and the
  configuration \<^verbatim>\<open>store.config\<close>, is not among the sources. Its five operations that the
  controller calls are modelled from what the spec says of the Status Record (a key-value
  record, created or overwritten by \<^verbatim>\<open>start\<close>, read by the other operations, deleted by
  \<^verbatim>\<open>kill\<close>) and of the Configuration (read-only defaults).
\<close>

text \<open>
  Modelled from the spec: \<^verbatim>\<open>store.config.get(k)\<close>, of the missing module \<^verbatim>\<open>./store\<close>. It
  reads the configured default of a key; an absent key reads \<^verbatim>\<open>undefined\<close>.
\<close>

definition config_get :: "env \<Rightarrow> string \<Rightarrow> jsval" where
  "config_get env k = getprop (config env) k"

text \<open>
  Modelled from the spec: \<^verbatim>\<open>store.status.get(k)\<close>, of the missing module \<^verbatim>\<open>./store\<close>. It
  reads a key of the Status Record; an absent key reads \<^verbatim>\<open>undefined\<close>.
\<close>

definition status_get :: "world \<Rightarrow> string \<Rightarrow> jsval" where
  "status_get w k = getprop (store_status w) k"

text \<open>
  Modelled from the spec: \<^verbatim>\<open>store.status.set\<close>, of the missing module \<^verbatim>\<open>./store\<close>, called
  with an object or with a key and a value. It writes the given keys of the Status Record
  and keeps the others.
\<close>

definition status_set :: "jsobj \<Rightarrow> world \<Rightarrow> world" where
  "status_set kvs w =
     emit [StatusSet kvs]
       (w\<lparr>store_status := foldl (\<lambda>st (k, v). put k v st) (store_status w) kvs\<rparr>)"

text \<open>
  Modelled from the spec: \<^verbatim>\<open>store.status.clear()\<close>, of the missing module \<^verbatim>\<open>./store\<close>. It
  deletes the Status Record: no key is left.
\<close>

definition status_clear :: "world \<Rightarrow> world" where
  "status_clear w = emit [StatusClear] (w\<lparr>store_status := []\<rparr>)"

text \<open>
  Modelled from the spec: \<^verbatim>\<open>store.status.all\<close>, of the missing module \<^verbatim>\<open>./store\<close>: the
  whole Status Record as an object.
\<close>

definition status_all :: "world \<Rightarrow> jsval" where
  "status_all w = JObj (store_status w)"

section \<open>The controller\<close>

text \<open>
  The definitions follow \<^verbatim>\<open>src/cli/controller.js\<close> method by method. An options argument
  is an object. \<open>str\<close> and \<open>num\<close> are the string and number conversions that template
  literals and arithmetic apply.
\<close>

definition TIMEOUT_POLL_INCREMENT :: nat where
  "TIMEOUT_POLL_INCREMENT = 500"

definition STATE_STOPPED :: nat where
  "STATE_STOPPED = 0"

definition STATE_RUNNING :: nat where
  "STATE_RUNNING = 1"

definition str :: "env \<Rightarrow> jsval \<Rightarrow> string" where
  "str env v = js_ToString (number_format env) v"

definition num :: "env \<Rightarrow> jsval \<Rightarrow> jsnum" where
  "num env v = ToNumber (number_format env) v"

text \<open>
  \<open>fallback\<close> is the expression
  \<^verbatim>\<open>opts[k] || store.status.get(k) || store.config.get(k)\<close>, which \<^verbatim>\<open>getEmulatorRootUri\<close>
  and \<^verbatim>\<open>testConnection\<close> both write out for \<^verbatim>\<open>host\<close> and for \<^verbatim>\<open>port\<close>.
\<close>

definition fallback :: "env \<Rightarrow> jsobj \<Rightarrow> world \<Rightarrow> string \<Rightarrow> jsval" where
  "fallback env opts w k = js_or (js_or (getprop opts k) (status_get w k)) (config_get env k)"

definition getEmulatorRootUri :: "env \<Rightarrow> jsobj \<Rightarrow> world \<Rightarrow> string" where
  "getEmulatorRootUri env opts w =
     (let host = fallback env opts w ''host'';
          port = fallback env opts w ''port''
      in ''http://'' @ str env host @ '':'' @ str env port)"

definition getEmulatorFuncUri :: "env \<Rightarrow> jsobj \<Rightarrow> world \<Rightarrow> string" where
  "getEmulatorFuncUri env opts w = getEmulatorRootUri env opts w @ ''/function/''"

definition getSetting :: "env \<Rightarrow> string \<Rightarrow> jsobj \<Rightarrow> jsval" where
  "getSetting env key opts = js_or (getprop opts key) (config_get env key)"

text \<open>
  \<^verbatim>\<open>testConnection\<close>: one connection attempt to the port and host that the options, then
  the status store, then the configuration give. The promise resolves on the connection
  and rejects with the error event.
\<close>

definition testConnection :: "env \<Rightarrow> jsobj \<Rightarrow> world \<Rightarrow> jsval result \<times> world" where
  "testConnection env opts w =
     (let host = fallback env opts w ''host'';
          port = fallback env opts w ''port'';
          r = net_connect env (attempts w) port host
      in (case r of None \<Rightarrow> Resolved JUndefined | Some e \<Rightarrow> Rejected e,
          emit [NetConnect port host (r = None)] (w\<lparr>attempts := Suc (attempts w)\<rparr>)))"

text \<open>
  \<^verbatim>\<open>_waitForStart(opts, i)\<close> and \<^verbatim>\<open>_waitForStop(opts, i)\<close>. A falsy \<open>i\<close> is replaced by
  \<^verbatim>\<open>opts.timeout / TIMEOUT_POLL_INCREMENT\<close>, named \<open>poll_budget\<close> here. On the outcome
  of the probe that keeps the poll going, \<open>i\<close> is decremented; \<^verbatim>\<open>i <= 0\<close> throws the
  timeout error inside the promise callback, which rejects the promise; otherwise the
  method calls itself from a \<^verbatim>\<open>setTimeout\<close> of one poll increment. The recursion need not end: the functions are
  partial, and \<open>None\<close> is a promise that never settles.
\<close>

definition poll_budget :: "env \<Rightarrow> jsobj \<Rightarrow> jsnum" where
  "poll_budget env opts =
     js_div (num env (getprop opts ''timeout'')) (Fin (of_nat TIMEOUT_POLL_INCREMENT))"

partial_function (option) waitForStart ::
  "env \<Rightarrow> jsobj \<Rightarrow> jsval \<Rightarrow> world \<Rightarrow> (jsval result \<times> world) option" where
  "waitForStart env opts i w =
     (let i0 = (if \<not> truthy i then JNum (poll_budget env opts) else i)
      in case testConnection env opts w of
           (Resolved v, w1) \<Rightarrow> Some (Resolved v, w1)
         | (Thrown e, w1) \<Rightarrow> Some (Thrown e, w1)
         | (Rejected e, w1) \<Rightarrow>
             (let i1 = js_sub (num env i0) (Fin 1)
              in if js_le i1 (Fin 0) then Some (Rejected Timeout_waiting_for_emulator_start, w1)
                 else waitForStart env opts (JNum i1) (emit [SetTimeout TIMEOUT_POLL_INCREMENT] w1)))"


declare waitForStart.simps [code]

text \<open>
  \<^verbatim>\<open>_action(opts)\<close>: a string is a URL; the method defaults to \<^verbatim>\<open>GET\<close>; \<^verbatim>\<open>json\<close> is
  \<^verbatim>\<open>true\<close>, or for a \<^verbatim>\<open>POST\<close> with truthy \<^verbatim>\<open>data\<close> the parsed or the given data; \<^verbatim>\<open>raw\<close>
  is removed from the options and decides whether the response or its body is the result.
  \<^verbatim>\<open>JSON.parse\<close> runs before the promise exists, so its error is thrown to the caller. A
  primitive other than a string has no properties to assign in strict mode; an array is
  read as an object without the named properties.
\<close>

definition remove_key :: "string \<Rightarrow> jsobj \<Rightarrow> jsobj" where
  "remove_key k kvs = filter (\<lambda>(k', v). k' \<noteq> k) kvs"

definition action :: "env \<Rightarrow> jsval \<Rightarrow> world \<Rightarrow> jsval result \<times> world" where
  "action env a w =
     (case (case a of
              JUndefined \<Rightarrow> Some []
            | JStr s \<Rightarrow> Some [(''url'', JStr s)]
            | JObj kvs \<Rightarrow> Some kvs
            | JArr xs \<Rightarrow> Some []
            | _ \<Rightarrow> None) of
        None \<Rightarrow> (Thrown TypeError, w)
      | Some opts0 \<Rightarrow>
          (let opts1 = (if truthy (getprop opts0 ''method'') then opts0
                        else put ''method'' (JStr ''GET'') opts0);
               opts2 = put ''json'' (JBool True) opts1;
               data = getprop opts2 ''data''
           in case (if getprop opts2 ''method'' = JStr ''POST'' \<and> truthy data then
                      (if str env data = ''[object String]'' \<or> js_typeof data = ''string'' then
                         (case JSON_parse (str env data) of
                            Inl e \<Rightarrow> Inl e
                          | Inr v \<Rightarrow> Inr (put ''json'' v opts2))
                       else Inr (put ''json'' data opts2))
                    else Inr opts2) of
                Inl e \<Rightarrow> (Thrown e, w)
              | Inr opts3 \<Rightarrow>
                  (let raw = getprop opts3 ''raw'';
                       opts4 = remove_key ''raw'' opts3;
                       w1 = emit [Got (getprop opts4 ''url'') opts4] w
                   in case got env (getprop opts4 ''url'') opts4 of
                        Inl e \<Rightarrow> (Rejected e, w1)
                      | Inr response \<Rightarrow>
                          (Resolved (if truthy raw then response else js_get response ''body''),
                           w1))))"

text \<open>
  \<^verbatim>\<open>kill\<close>: the callback signals the stored pid and clears the status store; when the
  signal raises, the \<^verbatim>\<open>catch\<close> handler clears the store.
\<close>

definition kill :: "env \<Rightarrow> jsobj \<Rightarrow> world \<Rightarrow> jsval result \<times> world" where
  "kill env opts w =
     (let pid = status_get w ''pid'';
          w1 = emit [ProcessKill pid] w
      in case process_kill env pid of
           None \<Rightarrow> (Resolved JUndefined, status_clear w1)
         | Some e \<Rightarrow> (Resolved JUndefined, status_clear w1))"


definition clear :: "env \<Rightarrow> jsobj \<Rightarrow> world \<Rightarrow> jsval result \<times> world" where
  "clear env opts w =
     action env (JObj [(''method'', JStr ''DELETE''),
                       (''url'', JStr (getEmulatorFuncUri env opts w))]) w"

definition prune :: "env \<Rightarrow> jsobj \<Rightarrow> world \<Rightarrow> jsval result \<times> world" where
  "prune env opts w =
     action env (JObj [(''method'', JStr ''PATCH''),
                       (''url'', JStr (getEmulatorFuncUri env opts w))]) w"

text \<open>\<^verbatim>\<open>status\<close>: the object it resolves with has a state and a metadata or an error.\<close>

record status_report =
  state :: nat
  metadata :: "jsval option"
  error :: "error option"

definition status :: "env \<Rightarrow> jsobj \<Rightarrow> world \<Rightarrow> status_report result \<times> world" where
  "status env opts w =
     (case testConnection env opts w of
        (Resolved v, w1) \<Rightarrow>
          (Resolved \<lparr>state = STATE_RUNNING, metadata = Some (status_all w1), error = None\<rparr>, w1)
      | (Rejected err, w1) \<Rightarrow>
          (Resolved \<lparr>state = STATE_STOPPED, metadata = None, error = Some err\<rparr>, w1)
      | (Thrown e, w1) \<Rightarrow> (Thrown e, w1))"

definition undeploy :: "env \<Rightarrow> jsval \<Rightarrow> jsobj \<Rightarrow> world \<Rightarrow> jsval result \<times> world" where
  "undeploy env name opts w =
     action env (JObj [(''method'', JStr ''DELETE''),
                       (''url'', JStr (getEmulatorFuncUri env opts w @ str env name))]) w"

definition list_functions :: "env \<Rightarrow> jsobj \<Rightarrow> world \<Rightarrow> jsval result \<times> world" where
  "list_functions env opts w = action env (JStr (getEmulatorFuncUri env opts w)) w"

definition describe :: "env \<Rightarrow> jsval \<Rightarrow> jsobj \<Rightarrow> world \<Rightarrow> jsval result \<times> world" where
  "describe env name opts w = action env (JStr (getEmulatorFuncUri env opts w @ str env name)) w"

definition call :: "env \<Rightarrow> jsval \<Rightarrow> jsval \<Rightarrow> jsobj \<Rightarrow> world \<Rightarrow> jsval result \<times> world" where
  "call env name data opts w =
     action env (JObj [(''data'', data),
                       (''method'', JStr ''POST''),
                       (''url'', JStr (getEmulatorRootUri env opts w @ ''/'' @ str env name)),
                       (''raw'', JBool True)]) w"

definition getCurrentEnvironment :: "env \<Rightarrow> jsobj \<Rightarrow> world \<Rightarrow> jsval result \<times> world" where
  "getCurrentEnvironment env opts w =
     action env (JObj [(''url'', JStr (getEmulatorRootUri env opts w @ ''/?env=true'')),
                       (''timeout'', JNum (Fin 2000))]) w"

text \<open>
  \<^verbatim>\<open>start\<close>, in the order of its statements. \<open>node_major\<close> is the major version read off
  \<^verbatim>\<open>process.version\<close>; \<open>start_base_args\<close> is the array literal \<^verbatim>\<open>args\<close>; \<open>start_mode\<close> is
  the conditional that prepends \<^verbatim>\<open>--inspect\<close> or \<^verbatim>\<open>--debug=\<close> to it and writes to the
  console; \<open>start_args\<close> is the array that reaches \<^verbatim>\<open>spawn\<close>. The whole body runs in a
  promise callback, so every raised error rejects the promise. The status store is
  written after \<^verbatim>\<open>spawn\<close> has returned, and the promise is that of \<^verbatim>\<open>_waitForStart(opts)\<close>.
\<close>

definition node_major :: "env \<Rightarrow> jsnum" where
  "node_major env =
     (let semver = split_dot (process_version env)
      in js_parseInt (drop 1 (hd semver)))"

definition start_base_args :: "env \<Rightarrow> jsobj \<Rightarrow> jsval \<Rightarrow> jsval list" where
  "start_base_args env opts logFile =
     [JStr ''.'',
      JStr ''--host'', getSetting env ''host'' opts,
      JStr ''--port'', getSetting env ''port'' opts,
      JStr ''--projectId'', js_or (getSetting env ''projectId'' opts) (GCLOUD_PROJECT env),
      JStr ''--timeout'', getSetting env ''timeout'' opts,
      JStr ''--verbose'', getSetting env ''verbose'' opts,
      JStr ''--useMocks'', getSetting env ''useMocks'' opts,
      JStr ''--logFile'', logFile]"

definition start_mode ::
  "env \<Rightarrow> jsobj \<Rightarrow> jsval \<Rightarrow> jsval list \<Rightarrow> jsval list \<times> event list" where
  "start_mode env opts logFile args =
     (let debug = getSetting env ''debug'' opts;
          debugPort = getSetting env ''debugPort'' opts;
          inspect = getSetting env ''inspect'' opts
      in if inspect = JBool True \<or> inspect = JStr ''true'' then
           (if js_ge (node_major env) (Fin 6)
            then (JStr ''--inspect'' # args,
                  [ConsoleLog (''Starting in inspect mode. Check '' @ str env logFile
                     @ '' for details on how to connect to the chrome debugger.'')])
            else (args, [ConsoleError ''--inspect flag requires Node 6.3.0+'']))
         else if debug = JBool True \<or> debug = JStr ''true'' then
           (JStr (''--debug='' @ str env debugPort) # args,
            [ConsoleLog (''Starting in debug mode. Debugger listening on port ''
               @ str env debugPort)])
         else (args, []))"

definition start_args :: "env \<Rightarrow> jsobj \<Rightarrow> jsval \<Rightarrow> jsval list" where
  "start_args env opts logFile =
     fst (start_mode env opts logFile (start_base_args env opts logFile))"

definition start :: "env \<Rightarrow> jsobj \<Rightarrow> world \<Rightarrow> (jsval result \<times> world) option" where
  "start env opts w =
     (let host = getSetting env ''host'' opts;
          port = getSetting env ''port'' opts;
          projectId = js_or (getSetting env ''projectId'' opts) (GCLOUD_PROJECT env)
      in case assertLogsPath env (getSetting env ''logFile'' opts) of
           Inl e \<Rightarrow> Some (Rejected e, w)
         | Inr logFile \<Rightarrow>
             (let debug = getSetting env ''debug'' opts;
                  debugPort = getSetting env ''debugPort'' opts;
                  inspect = getSetting env ''inspect'' opts;
                  (args, msgs) = start_mode env opts logFile (start_base_args env opts logFile);
                  w1 = emit (msgs @ [OpenSync logFile]) w
              in case openSync env logFile of
                   Inl e \<Rightarrow> Some (Rejected e, w1)
                 | Inr out \<Rightarrow>
                     (let w2 = emit [Spawn args out] w1
                      in case spawn env args out of
                           Inl e \<Rightarrow> Some (Rejected e, w2)
                         | Inr pid \<Rightarrow>
                             waitForStart env opts JUndefined
                               (status_set [(''pid'', pid)]
                                  (status_set [(''debug'', debug), (''debugPort'', debugPort),
                                               (''host'', host), (''inspect'', inspect),
                                               (''logFile'', logFile), (''port'', port),
                                               (''projectId'', projectId)] w2)))))"

section \<open>Vocabulary of the properties\<close>


text \<open>
  A concrete installation, for the closed instances of the theorems: a configuration with
  host, port, timeout and log file, Node 6.9.1, a file system and a \<^verbatim>\<open>spawn\<close> that
  succeed, an HTTP server that answers, and a port on which nothing listens. The variants
  differ in one oracle each.
\<close>

definition demo_env :: env where
  "demo_env =
     \<lparr>config = [(''host'', JStr ''localhost''), (''port'', JNum (Fin 8008)),
                (''timeout'', JNum (Fin 3000)), (''logFile'', JStr ''emulator.log'')],
      GCLOUD_PROJECT = JUndefined,
      process_version = ''v6.9.1'',
      number_format = (\<lambda>q. []),
      assertLogsPath = (\<lambda>f. Inr f),
      openSync = (\<lambda>f. Inr (JNum (Fin 3))),
      spawn = (\<lambda>args out. Inr (JNum (Fin 4242))),
      net_connect = (\<lambda>n port host. Some (ExternalError ''ECONNREFUSED'')),
      got = (\<lambda>u opts. Inr (JObj [(''body'', JObj [(''projectId'', JStr ''p'')])])),
      process_kill = (\<lambda>pid. None)\<rparr>"

definition demo_env_up :: env where
  "demo_env_up = demo_env\<lparr>net_connect := (\<lambda>n port host. None)\<rparr>"

definition demo_env_node4 :: env where
  "demo_env_node4 = demo_env\<lparr>process_version := ''v4.4.0''\<rparr>"


definition demo_world :: world where
  "demo_world = \<lparr>store_status = [], attempts = 0, trace = []\<rparr>"

definition demo_world_running :: world where
  "demo_world_running =
     \<lparr>store_status = [(''host'', JStr ''localhost''), (''port'', JNum (Fin 8008)),
                      (''pid'', JNum (Fin 4242))],
      attempts = 0, trace = []\<rparr>"



text \<open>The \<^verbatim>\<open>json\<close> option of each HTTP request of a trace, in order: the outgoing payloads.\<close>

fun got_json :: "event \<Rightarrow> jsval option" where
  "got_json (Got u opts) = Some (getprop opts ''json'')"
| "got_json ev = None"

definition payloads :: "world \<Rightarrow> jsval list" where
  "payloads w = List.map_filter got_json (trace w)"


section \<open>Basic facts\<close>




lemma emit_world:
  "store_status (emit evs w) = store_status w"
  "attempts (emit evs w) = attempts w"
  "trace (emit evs w) = trace w @ evs"
  by (simp_all add: emit_def)

lemma fallback_store:
  "store_status w' = store_status w \<Longrightarrow> fallback env opts w' k = fallback env opts w k"
  by (simp add: fallback_def status_get_def)

section \<open>Forced shutdown\<close>

text \<open>
  Claim C3. \<^verbatim>\<open>kill\<close> is idempotent and always cleans up: whatever the status store holds
  (a pid or none) and whatever \<^verbatim>\<open>process.kill\<close> does with the stored pid (deliver the
  signal or raise), the promise resolves, the signal was addressed to the stored pid, and
  the status store is empty afterwards; a second \<^verbatim>\<open>kill\<close>, in any environment, resolves
  again and leaves the store empty.
\<close>

theorem kill_idempotent_cleanup:
  "fst (kill env opts w) = Resolved JUndefined
   \<and> store_status (snd (kill env opts w)) = []
   \<and> trace (snd (kill env opts w)) = trace w @ [ProcessKill (status_get w ''pid''), StatusClear]
   \<and> fst (kill env' opts' (snd (kill env opts w))) = Resolved JUndefined
   \<and> store_status (snd (kill env' opts' (snd (kill env opts w)))) = []"
  by (simp add: kill_def Let_def status_clear_def emit_def split: option.split)

section \<open>The readiness poll\<close>

text \<open>
  One connection attempt leaves the status store alone, counts as an attempt and adds one
  event; it resolves or rejects, and never throws.
\<close>

lemma testConnection_world:
  "store_status (snd (testConnection env opts w)) = store_status w"
  "attempts (snd (testConnection env opts w)) = Suc (attempts w)"
  "trace (snd (testConnection env opts w)) =
     trace w @ [NetConnect (fallback env opts w ''port'') (fallback env opts w ''host'')
                  (net_connect env (attempts w) (fallback env opts w ''port'')
                     (fallback env opts w ''host'') = None)]"
  by (simp_all add: testConnection_def Let_def emit_def)

lemma testConnection_cases:
  obtains (up) w1 where "net_connect env (attempts w) (fallback env opts w ''port'') (fallback env opts w ''host'') = None"
      "testConnection env opts w = (Resolved JUndefined, w1)"
  | (down) e w1 where "net_connect env (attempts w) (fallback env opts w ''port'') (fallback env opts w ''host'') = Some e"
      "testConnection env opts w = (Rejected e, w1)"
  by (cases "net_connect env (attempts w) (fallback env opts w ''port'') (fallback env opts w ''host'')")
     (auto simp: testConnection_def Let_def)



lemma testConnection_snd:
  assumes "testConnection env opts w = (r, w1)"
  shows "store_status w1 = store_status w" "attempts w1 = Suc (attempts w)"
    "trace w1 = trace w @ [NetConnect (fallback env opts w ''port'') (fallback env opts w ''host'')
                  (net_connect env (attempts w) (fallback env opts w ''port'')
                     (fallback env opts w ''host'') = None)]"
  using testConnection_world[of env opts w] assms by simp_all


lemma waitForStart_settled:
  assumes "waitForStart env opts i w = Some y"
  shows "store_status (snd y) = store_status w
       \<and> (\<exists>evs. trace (snd y) = trace w @ evs
               @ [NetConnect (fallback env opts w ''port'') (fallback env opts w ''host'')
                    (fst y = Resolved JUndefined)])
       \<and> (fst y = Resolved JUndefined \<or> fst y = Rejected Timeout_waiting_for_emulator_start)
       \<and> (fst y = Resolved JUndefined \<longrightarrow> (\<exists>n p h. net_connect env n p h = None))"
proof -
  let ?P = "\<lambda>env opts (i::jsval) w (y :: jsval result \<times> world).
       store_status (snd y) = store_status w
       \<and> (\<exists>evs. trace (snd y) = trace w @ evs
               @ [NetConnect (fallback env opts w ''port'') (fallback env opts w ''host'')
                    (fst y = Resolved JUndefined)])
       \<and> (fst y = Resolved JUndefined \<or> fst y = Rejected Timeout_waiting_for_emulator_start)
       \<and> (fst y = Resolved JUndefined \<longrightarrow> (\<exists>n p h. net_connect env n p h = None))"
  have "?P env opts i w y"
  proof (rule waitForStart.raw_induct[where P = ?P, OF _ assms])
    fix wfs env opts i w y
    assume IH: "\<And>env opts i w y. wfs env opts i w = Some y \<Longrightarrow> ?P env opts i w y"
      and eq: "(let i0 = if \<not> truthy i then JNum (poll_budget env opts) else i
        in case testConnection env opts w of
             (Resolved v, w1) \<Rightarrow> Some (Resolved v, w1)
           | (Rejected e, w1) \<Rightarrow>
               let i1 = js_sub (num env i0) (Fin 1)
               in if js_le i1 (Fin 0)
                  then Some (Rejected Timeout_waiting_for_emulator_start, w1)
                  else wfs env opts (JNum i1) (emit [SetTimeout TIMEOUT_POLL_INCREMENT] w1)
           | (Thrown e, w1) \<Rightarrow> Some (Thrown e, w1)) = Some y"
    show "?P env opts i w y"
    proof (cases rule: testConnection_cases[of env w opts])
      case (up w1)
      note w1 = testConnection_snd[OF up(2)]
      from eq have "y = (Resolved JUndefined, w1)"
        by (simp add: Let_def up(2))
      then show ?thesis
        using up(1) w1 by auto
    next
      case (down e w1)
      note w1 = testConnection_snd[OF down(2)]
      let ?i1 = "js_sub (num env (if \<not> truthy i then JNum (poll_budget env opts) else i)) (Fin 1)"
      let ?w1 = "emit [SetTimeout TIMEOUT_POLL_INCREMENT] w1"
      show ?thesis
      proof (cases "js_le ?i1 (Fin 0)")
        case True
        with eq have "y = (Rejected Timeout_waiting_for_emulator_start, w1)"
          by (simp add: Let_def down(2))
        then show ?thesis
          using down(1) w1 by auto
      next
        case False
        with eq have rec: "wfs env opts (JNum ?i1) ?w1 = Some y"
          by (simp add: Let_def down(2))
        have st: "store_status ?w1 = store_status w"
          by (simp add: emit_world w1)
        from IH[OF rec] show ?thesis
          using down(1) by (auto simp: fallback_store[OF st] emit_world w1)
      qed
    qed
  qed
  then show ?thesis .
qed






subsection \<open>Waiting for the server to go down\<close>













subsection \<open>Polls that go on\<close>







section \<open>Starting the child process\<close>

text \<open>
  When the log path and the log file are obtained, a settled \<^verbatim>\<open>start\<close> has spawned the
  child exactly once before anything else it did to it, with the arguments \<open>start_args\<close>.
\<close>

lemma start_spawn_event:
  assumes a: "assertLogsPath env (getSetting env ''logFile'' opts) = Inr logFile"
    and b: "openSync env logFile = Inr out"
    and s: "start env opts w = Some (r, w')"
  shows "\<exists>pre post. trace w' = trace w @ pre @ Spawn (start_args env opts logFile) out # post
           \<and> (\<forall>args fd. Spawn args fd \<notin> set pre)"
proof -
  obtain args msgs where sm:
    "start_mode env opts logFile (start_base_args env opts logFile) = (args, msgs)"
    by fastforce
  then have args: "start_args env opts logFile = args"
    by (simp add: start_args_def)
  have msgs: "\<forall>args fd. Spawn args fd \<notin> set (msgs @ [OpenSync logFile])"
    using sm by (auto simp: start_mode_def Let_def split: if_splits)
  show ?thesis
  proof (cases "spawn env args out")
    case (Inl e)
    with a b sm s have "trace w' = trace w @ (msgs @ [OpenSync logFile]) @ Spawn args out # []"
      by (auto simp: start_def Let_def emit_def)
    with msgs args show ?thesis by blast
  next
    case (Inr pid)
    let ?w0 = "status_set [(''pid'', pid)]
     (status_set [(''debug'', getSetting env ''debug'' opts),
                  (''debugPort'', getSetting env ''debugPort'' opts),
                  (''host'', getSetting env ''host'' opts),
                  (''inspect'', getSetting env ''inspect'' opts),
                  (''logFile'', logFile), (''port'', getSetting env ''port'' opts),
                  (''projectId'', js_or (getSetting env ''projectId'' opts) (GCLOUD_PROJECT env))]
        (emit [Spawn args out] (emit (msgs @ [OpenSync logFile]) w)))"
    from a b sm Inr s have "waitForStart env opts JUndefined ?w0 = Some (r, w')"
      by (simp add: start_def Let_def)
    from waitForStart_settled[OF this] obtain evs where
      "trace w' = trace ?w0 @ evs" by auto
    moreover have "\<exists>sets. trace ?w0 = trace w @ (msgs @ [OpenSync logFile]) @ Spawn args out # sets"
      by (simp add: status_set_def emit_def)
    ultimately obtain sets where
      "trace w' = trace w @ (msgs @ [OpenSync logFile]) @ Spawn args out # (sets @ evs)"
      by auto
    with msgs args show ?thesis by blast
  qed
qed



text \<open>
  Claim C10. When the \<^verbatim>\<open>inspect\<close> setting is \<^verbatim>\<open>true\<close> or \<^verbatim>\<open>'true'\<close>, the major version
  of the runtime is not at least 6 (it is below 6, or \<^verbatim>\<open>parseInt\<close> found no number), and
  the \<^verbatim>\<open>debug\<close> setting is \<^verbatim>\<open>true\<close> or \<^verbatim>\<open>'true'\<close> as well, the arguments that reach
  \<^verbatim>\<open>spawn\<close> are the base arguments alone: neither \<^verbatim>\<open>--inspect\<close> nor \<^verbatim>\<open>--debug=\<close> is
  added, and the only console output is the warning about \<^verbatim>\<open>--inspect\<close>. The base
  arguments are the ones of the spawn in the trace of every settled \<^verbatim>\<open>start\<close>.
\<close>

theorem start_old_runtime_drops_both:
  assumes "getSetting env ''inspect'' opts = JBool True \<or> getSetting env ''inspect'' opts = JStr ''true''"
    and "\<not> js_ge (node_major env) (Fin 6)"
    and "getSetting env ''debug'' opts = JBool True \<or> getSetting env ''debug'' opts = JStr ''true''"
  shows "start_args env opts logFile = start_base_args env opts logFile
       \<and> snd (start_mode env opts logFile (start_base_args env opts logFile))
           = [ConsoleError ''--inspect flag requires Node 6.3.0+'']
       \<and> (\<forall>out r w w'. assertLogsPath env (getSetting env ''logFile'' opts) = Inr logFile
              \<and> openSync env logFile = Inr out \<and> start env opts w = Some (r, w') \<longrightarrow>
              (\<exists>pre post. trace w' = trace w @ pre @ Spawn (start_base_args env opts logFile) out # post
                 \<and> (\<forall>args fd. Spawn args fd \<notin> set pre)))"
proof -
  have args: "start_args env opts logFile = start_base_args env opts logFile"
    and msgs: "snd (start_mode env opts logFile (start_base_args env opts logFile))
           = [ConsoleError ''--inspect flag requires Node 6.3.0+'']"
    using assms by (auto simp: start_args_def start_mode_def Let_def)
  have "\<exists>pre post. trace w' = trace w @ pre @ Spawn (start_base_args env opts logFile) out # post
             \<and> (\<forall>args fd. Spawn args fd \<notin> set pre)"
    if "assertLogsPath env (getSetting env ''logFile'' opts) = Inr logFile
          \<and> openSync env logFile = Inr out \<and> start env opts w = Some (r, w')" for out r w w'
    using that start_spawn_event[of env opts logFile out w r w'] args by auto
  with args msgs show ?thesis by blast
qed

theorem start_old_runtime_drops_both_witness:
  "node_major demo_env_node4 = Fin 4
   \<and> start_args demo_env_node4
        [(''inspect'', JStr ''true''), (''debug'', JBool True), (''timeout'', JNum (Fin 500))]
        (JStr ''emulator.log'')
       = start_base_args demo_env_node4
           [(''inspect'', JStr ''true''), (''debug'', JBool True), (''timeout'', JNum (Fin 500))]
           (JStr ''emulator.log'')
   \<and> (\<exists>w' pre post.
         start demo_env_node4
           [(''inspect'', JStr ''true''), (''debug'', JBool True), (''timeout'', JNum (Fin 500))]
           demo_world = Some (Rejected Timeout_waiting_for_emulator_start, w')
         \<and> trace w' = trace demo_world @ pre
             @ Spawn (start_base_args demo_env_node4
                        [(''inspect'', JStr ''true''), (''debug'', JBool True),
                         (''timeout'', JNum (Fin 500))]
                        (JStr ''emulator.log'')) (JNum (Fin 3)) # post)"
proof -
  let ?opts = "[(''inspect'', JStr ''true''), (''debug'', JBool True), (''timeout'', JNum (Fin 500))]"
  have v: "node_major demo_env_node4 = Fin 4"
    by code_simp
  have i: "getSetting demo_env_node4 ''inspect'' ?opts = JBool True
           \<or> getSetting demo_env_node4 ''inspect'' ?opts = JStr ''true''"
    by code_simp
  have m: "\<not> js_ge (node_major demo_env_node4) (Fin 6)"
    by code_simp
  have d: "getSetting demo_env_node4 ''debug'' ?opts = JBool True
           \<or> getSetting demo_env_node4 ''debug'' ?opts = JStr ''true''"
    by code_simp
  have a: "assertLogsPath demo_env_node4 (getSetting demo_env_node4 ''logFile'' ?opts)
             = Inr (JStr ''emulator.log'')"
    by code_simp
  have b: "openSync demo_env_node4 (JStr ''emulator.log'') = Inr (JNum (Fin 3))"
    by code_simp
  have "map_option fst (start demo_env_node4 ?opts demo_world)
          = Some (Rejected Timeout_waiting_for_emulator_start)"
    by code_simp
  then obtain w' where
    s: "start demo_env_node4 ?opts demo_world = Some (Rejected Timeout_waiting_for_emulator_start, w')"
    by auto
  note t = start_old_runtime_drops_both [OF i m d, of "JStr ''emulator.log''"]
  from t a b s obtain pre post where
    "trace w' = trace demo_world @ pre
       @ Spawn (start_base_args demo_env_node4 ?opts (JStr ''emulator.log'')) (JNum (Fin 3)) # post"
    by blast
  with s have "\<exists>w' pre post.
         start demo_env_node4 ?opts demo_world = Some (Rejected Timeout_waiting_for_emulator_start, w')
         \<and> trace w' = trace demo_world @ pre
             @ Spawn (start_base_args demo_env_node4 ?opts (JStr ''emulator.log'')) (JNum (Fin 3)) # post"
    by auto
  with v t show ?thesis by simp
qed



section \<open>Readiness of the started server\<close>

lemma demo_env_simps:
  "config demo_env = [(''host'', JStr ''localhost''), (''port'', JNum (Fin 8008)),
                (''timeout'', JNum (Fin 3000)), (''logFile'', JStr ''emulator.log'')]"
  "GCLOUD_PROJECT demo_env = JUndefined"
  "process_version demo_env = ''v6.9.1''"
  "assertLogsPath demo_env f = Inr f"
  "openSync demo_env f = Inr (JNum (Fin 3))"
  "spawn demo_env args out = Inr (JNum (Fin 4242))"
  "net_connect demo_env n port host = Some (ExternalError ''ECONNREFUSED'')"
  "got demo_env u opts = Inr (JObj [(''body'', JObj [(''projectId'', JStr ''p'')])])"
  "process_kill demo_env pid = None"
  by (simp_all add: demo_env_def)











section \<open>Graceful, then forced shutdown\<close>









section \<open>The budget of the poll\<close>




section \<open>Falsy options\<close>




section \<open>Reporting the status\<close>

text \<open>
  Claim C5, as the code has it. For every options value \<^verbatim>\<open>status\<close> makes one connection
  attempt and nothing else: no HTTP request, no write to the status store. Its promise
  always resolves. When the attempt connects, the value is the state \<^verbatim>\<open>RUNNING\<close> with,
  as metadata, the whole persisted status record; when the attempt fails, the value is
  the state \<^verbatim>\<open>STOPPED\<close> with the error of the attempt.
\<close>

theorem status_reports_store:
  "\<exists>r w' up. status env opts w = (Resolved r, w')
     \<and> trace w' = trace w @ [NetConnect (fallback env opts w ''port'') (fallback env opts w ''host'') up]
     \<and> store_status w' = store_status w
     \<and> up = (net_connect env (attempts w) (fallback env opts w ''port'')
                (fallback env opts w ''host'') = None)
     \<and> (up \<longrightarrow> r = \<lparr>state = STATE_RUNNING, metadata = Some (JObj (store_status w)), error = None\<rparr>)
     \<and> (\<forall>e. net_connect env (attempts w) (fallback env opts w ''port'')
                (fallback env opts w ''host'') = Some e \<longrightarrow>
           r = \<lparr>state = STATE_STOPPED, metadata = None, error = Some e\<rparr>)"
  by (auto simp: status_def testConnection_def Let_def emit_def status_all_def split: option.split)

theorem status_reports_store_witness:
  "net_connect demo_env_up (attempts demo_world_running)
       (fallback demo_env_up [] demo_world_running ''port'')
       (fallback demo_env_up [] demo_world_running ''host'') = None
   \<and> fst (status demo_env_up [] demo_world_running)
       = Resolved \<lparr>state = STATE_RUNNING, metadata = Some (JObj (store_status demo_world_running)),
                   error = None\<rparr>
   \<and> net_connect demo_env (attempts demo_world)
       (fallback demo_env [] demo_world ''port'')
       (fallback demo_env [] demo_world ''host'') = Some (ExternalError ''ECONNREFUSED'')
   \<and> fst (status demo_env [] demo_world)
       = Resolved \<lparr>state = STATE_STOPPED, metadata = None,
                   error = Some (ExternalError ''ECONNREFUSED'')\<rparr>"
proof -
  have u: "net_connect demo_env_up (attempts demo_world_running)
       (fallback demo_env_up [] demo_world_running ''port'')
       (fallback demo_env_up [] demo_world_running ''host'') = None"
    by (simp add: demo_env_up_def)
  have d: "net_connect demo_env (attempts demo_world)
       (fallback demo_env [] demo_world ''port'')
       (fallback demo_env [] demo_world ''host'') = Some (ExternalError ''ECONNREFUSED'')"
    by (simp add: demo_env_simps)
  from u status_reports_store [of demo_env_up "[]" demo_world_running]
  have a: "fst (status demo_env_up [] demo_world_running)
       = Resolved \<lparr>state = STATE_RUNNING, metadata = Some (JObj (store_status demo_world_running)),
                   error = None\<rparr>"
    by auto
  from d status_reports_store [of demo_env "[]" demo_world]
  have b: "fst (status demo_env [] demo_world)
       = Resolved \<lparr>state = STATE_STOPPED, metadata = None,
                   error = Some (ExternalError ''ECONNREFUSED'')\<rparr>"
    by auto
  show ?thesis using u d a b by simp
qed

text \<open>
  The claim as stated has the metadata come from \<^verbatim>\<open>GET ?env=true\<close>. With a server that
  is up and answers that request with its environment, the trace of \<^verbatim>\<open>status\<close> holds
  the connection attempt alone and the metadata is the status record, which is not what
  \<^verbatim>\<open>getCurrentEnvironment\<close> obtains.
\<close>

theorem status_makes_no_request:
  "status demo_env_up [] demo_world_running
     = (Resolved \<lparr>state = 1,
                  metadata = Some (JObj [(''host'', JStr ''localhost''), (''port'', JNum (Fin 8008)),
                                         (''pid'', JNum (Fin 4242))]),
                  error = None\<rparr>,
        \<lparr>store_status = [(''host'', JStr ''localhost''), (''port'', JNum (Fin 8008)),
                          (''pid'', JNum (Fin 4242))],
           attempts = 1,
           trace = [NetConnect (JNum (Fin 8008)) (JStr ''localhost'') True]\<rparr>)
   \<and> getCurrentEnvironment demo_env_up [] demo_world_running
     = (Resolved (JObj [(''projectId'', JStr ''p'')]),
        \<lparr>store_status = [(''host'', JStr ''localhost''), (''port'', JNum (Fin 8008)),
                          (''pid'', JNum (Fin 4242))],
           attempts = 0,
           trace = [Got (JStr ''http://localhost:8008/?env=true'')
                      [(''url'', JStr ''http://localhost:8008/?env=true''),
                       (''timeout'', JNum (Fin 2000)), (''method'', JStr ''GET''),
                       (''json'', JBool True)]]\<rparr>)"
  by code_simp

section \<open>The body of a call\<close>

text \<open>
  What \<^verbatim>\<open>call\<close> hands to the HTTP client, by the kind of body: a truthy body that is a
  string, or whose \<^verbatim>\<open>toString()\<close> is \<^verbatim>\<open>[object String]\<close>, goes through \<^verbatim>\<open>JSON.parse\<close>,
  whose error is thrown; any other truthy body is the \<^verbatim>\<open>json\<close> option as it is; a falsy
  body leaves \<^verbatim>\<open>json: true\<close>.
\<close>

lemma call_request:
  "call env name data opts w =
     (let url = JStr (getEmulatorRootUri env opts w @ ''/'' @ str env name);
          base = [(''data'', data), (''method'', JStr ''POST''), (''url'', url)]
      in if truthy data then
           (if str env data = ''[object String]'' \<or> js_typeof data = ''string'' then
              (case JSON_parse (str env data) of
                 Inl e \<Rightarrow> (Thrown e, w)
               | Inr v \<Rightarrow>
                   (case got env url (base @ [(''json'', v)]) of
                      Inl e \<Rightarrow> (Rejected e, emit [Got url (base @ [(''json'', v)])] w)
                    | Inr response \<Rightarrow> (Resolved response, emit [Got url (base @ [(''json'', v)])] w)))
            else
              (case got env url (base @ [(''json'', data)]) of
                 Inl e \<Rightarrow> (Rejected e, emit [Got url (base @ [(''json'', data)])] w)
               | Inr response \<Rightarrow> (Resolved response, emit [Got url (base @ [(''json'', data)])] w)))
         else
           (case got env url (base @ [(''json'', JBool True)]) of
              Inl e \<Rightarrow> (Rejected e, emit [Got url (base @ [(''json'', JBool True)])] w)
            | Inr response \<Rightarrow> (Resolved response, emit [Got url (base @ [(''json'', JBool True)])] w)))"
  by (simp add: call_def action_def getprop_def Let_def remove_key_def split: sum.split)

lemma payloads_emit: "payloads (emit [Got u opts] w) = payloads w @ [getprop opts ''json'']"
  by (simp add: payloads_def emit_def List.map_filter_def)

lemma call_string_body:
  assumes "s \<noteq> []"
  shows "JSON_parse s = Inr v \<Longrightarrow> payloads (snd (call env name (JStr s) opts w)) = payloads w @ [v]"
    and "JSON_parse s = Inl e \<Longrightarrow> call env name (JStr s) opts w = (Thrown e, w)"
  using assms
  by (simp_all add: call_request Let_def str_def payloads_emit getprop_def split: sum.split)

lemma call_object_body:
  "payloads (snd (call env name (JObj kvs) opts w)) = payloads w @ [JObj kvs]"
  by (simp add: call_request Let_def str_def payloads_emit getprop_def split: sum.split)

lemma JSON_parse_a1: \<open>JSON_parse ''{"a":1}'' = Inr (JObj [(''a'', JNum (Fin 1))])\<close>
  by code_simp

lemma call_string_and_object_same_payload:
  \<open>payloads (snd (call env name (JStr ''{"a":1}'') opts w))
     = payloads (snd (call env name (JObj [(''a'', JNum (Fin 1))]) opts w))\<close>
  by (simp add: call_string_body(1)[OF _ JSON_parse_a1] call_object_body)

text \<open>
  Claim C7 holds for a string body and for a plain object: the string is parsed, the
  object is passed through, and \<^verbatim>\<open>'{"a":1}'\<close> and \<^verbatim>\<open>{a:1}\<close> give the same payload
  (\<open>call_string_body\<close>, \<open>call_object_body\<close>, \<open>call_string_and_object_same_payload\<close>).
  It fails for a body that is not a string and whose \<^verbatim>\<open>toString()\<close> is the text
  \<^verbatim>\<open>[object String]\<close>: the array \<^verbatim>\<open>['[object String]']\<close> is not passed through, it is
  handed to \<^verbatim>\<open>JSON.parse\<close>, and \<^verbatim>\<open>call\<close> throws a syntax error before any request.
\<close>

theorem call_array_body_is_parsed_and_throws:
  "js_typeof (JArr [JStr ''[object String]'']) = ''object''
   \<and> call demo_env (JStr ''hello'') (JArr [JStr ''[object String]'']) [] demo_world
       = (Thrown SyntaxError, demo_world)"
  by code_simp

end
